theory Spec2Isabelle
  imports Complex_Main
begin

section \<open>Matrices as the classifier sees them\<close>

text \<open>
  The module \<^verbatim>\<open>pymodular/modules/linalg.py\<close> holds the solver classifier
  \<^verbatim>\<open>auto_determine_solver\<close> and the node \<^verbatim>\<open>LinSolve\<close>. Floating-point
  numbers are read as real and complex numbers: the properties below are about which
  branch is taken and which formula is applied, not about rounding.

  A matrix value is a dense two-dimensional array or a scipy sparse matrix. The code
  reads from it whether it is sparse (\<^verbatim>\<open>sps.issparse\<close>), whether its element type is
  complex (\<^verbatim>\<open>np.iscomplexobj\<close>), its shape and its entries.
\<close>

datatype dtype = RealValued | ComplexValued

record matrix =
  sparse :: bool
  mdtype :: dtype
  shape :: "nat \<times> nat"
  entry :: "nat \<Rightarrow> nat \<Rightarrow> complex"

definition sps_issparse :: "matrix \<Rightarrow> bool" where
  "sps_issparse A = sparse A"

definition iscomplexobj_matrix :: "matrix \<Rightarrow> bool" where
  "iscomplexobj_matrix A = (mdtype A = ComplexValued)"

text \<open>\<^verbatim>\<open>A.diagonal()\<close>: the entries \<open>A[i, i]\<close> for \<open>i < min(rows, columns)\<close>.\<close>

definition diagonal :: "matrix \<Rightarrow> complex list" where
  "diagonal A = map (\<lambda>i. entry A i i) [0..<min (fst (shape A)) (snd (shape A))]"

text \<open>
  numpy orders complex numbers lexicographically (real part first), which on real
  entries is the usual order; \<^verbatim>\<open>x > 0\<close> and \<^verbatim>\<open>x < 0\<close> are elementwise.
\<close>

definition gt0 :: "complex \<Rightarrow> bool" where
  "gt0 z = (0 < Re z \<or> (Re z = 0 \<and> 0 < Im z))"

definition lt0 :: "complex \<Rightarrow> bool" where
  "lt0 z = (Re z < 0 \<or> (Re z = 0 \<and> Im z < 0))"

text \<open>\<^verbatim>\<open>np.alltrue(A.diagonal() > 0) or np.alltrue(A.diagonal() < 0)\<close>\<close>

definition diagonal_one_sign :: "matrix \<Rightarrow> bool" where
  "diagonal_one_sign A = (list_all gt0 (diagonal A) \<or> list_all lt0 (diagonal A))"

text \<open>
  \<^verbatim>\<open>np.tril\<close> and \<^verbatim>\<open>np.triu\<close> zero the entries above and below the diagonal;
  \<^verbatim>\<open>np.allclose(a, b)\<close> holds when \<open>|a - b| \<le> atol + rtol * |b|\<close> at every entry,
  with the defaults \<open>atol = 1e-8\<close> and \<open>rtol = 1e-5\<close>.
\<close>

definition np_tril :: "matrix \<Rightarrow> matrix" where
  "np_tril A = A\<lparr>entry := (\<lambda>i j. if j \<le> i then entry A i j else 0)\<rparr>"

definition np_triu :: "matrix \<Rightarrow> matrix" where
  "np_triu A = A\<lparr>entry := (\<lambda>i j. if i \<le> j then entry A i j else 0)\<rparr>"

definition isclose :: "complex \<Rightarrow> complex \<Rightarrow> bool" where
  "isclose a b = (cmod (a - b) \<le> 1 / 10 ^ 8 + (1 / 10 ^ 5) * cmod b)"

definition np_allclose :: "matrix \<Rightarrow> matrix \<Rightarrow> bool" where
  "np_allclose A B =
     list_all (\<lambda>i. list_all (\<lambda>j. isclose (entry A i j) (entry B i j))
                      [0..<snd (shape A)])
       [0..<fst (shape A)]"

section \<open>What the module imports from the package\<close>

text \<open>
  The structure checks \<^verbatim>\<open>matrix_is_diagonal\<close>, \<^verbatim>\<open>matrix_is_symmetric\<close> and
  \<^verbatim>\<open>matrix_is_hermitian\<close>, and the class attributes \<^verbatim>\<open>defined\<close> that tell whether
  an optional sparse solver is installed, are imported from the package and are not
  part of this module. They are parameters of the classifier.
\<close>

record pymodular =
  matrix_is_diagonal :: "matrix \<Rightarrow> bool"
  matrix_is_symmetric :: "matrix \<Rightarrow> bool"
  matrix_is_hermitian :: "matrix \<Rightarrow> bool"
  SolverSparsePardiso_defined :: bool
  SolverSparseCholeskyScikit_defined :: bool
  SolverSparseCholeskyCVXOPT_defined :: bool

text \<open>
  The solver objects the classifier constructs, each with the arguments of its
  constructor call: \<^verbatim>\<open>SolverDenseLDL(hermitian=...)\<close> and
  \<^verbatim>\<open>SolverSparsePardiso(symmetric=..., hermitian=..., positive_definite=...)\<close>.
  The module imports no triangular solver class.
\<close>

datatype solver =
    SolverDenseQR
  | SolverDiagonal
  | SolverDenseCholesky
  | SolverDenseLDL bool
  | SolverDenseLU
  | SolverSparsePardiso bool bool "bool option"
  | SolverSparseCholeskyScikit
  | SolverSparseCholeskyCVXOPT
  | SolverSparseLU

datatype solver_error = SingularMatrixError | NumericalSolveError

datatype error = AssertionError | AttributeError | ValueError | SolverError solver_error

section \<open>The classifier\<close>

text \<open>
  Lines 63 to 81 of \<^verbatim>\<open>auto_determine_solver\<close>: the Hermitian and symmetric flags after
  detection and overrides. For a real-valued matrix with both overrides given, the
  assertion \<^verbatim>\<open>ishermitian == issymmetric\<close> raises \<^verbatim>\<open>AssertionError\<close> when they differ.
  The result is the pair \<open>(ishermitian, issymmetric)\<close>.
\<close>

definition classify_symmetry ::
  "pymodular \<Rightarrow> matrix \<Rightarrow> bool option \<Rightarrow> bool option \<Rightarrow> error + (bool \<times> bool)" where
  "classify_symmetry pm A ishermitian issymmetric =
     (if iscomplexobj_matrix A then
        Inr (case ishermitian of None \<Rightarrow> matrix_is_hermitian pm A | Some h \<Rightarrow> h,
             case issymmetric of None \<Rightarrow> matrix_is_symmetric pm A | Some s \<Rightarrow> s)
      else
        (case (ishermitian, issymmetric) of
           (None, None) \<Rightarrow> (let s = matrix_is_symmetric pm A in Inr (s, s))
         | (Some h, Some s) \<Rightarrow> (if h = s then Inr (h, s) else Inl AssertionError)
         | (None, Some s) \<Rightarrow> Inr (s, s)
         | (Some h, None) \<Rightarrow> Inr (h, h)))"

text \<open>
  The flag \<open>isdiagonal\<close> after line 43, and the two triangular flags after lines 50
  and 55 (detected for dense matrices only).
\<close>

definition resolve_isdiagonal :: "pymodular \<Rightarrow> matrix \<Rightarrow> bool option \<Rightarrow> bool" where
  "resolve_isdiagonal pm A isdiagonal =
     (case isdiagonal of None \<Rightarrow> matrix_is_diagonal pm A | Some d \<Rightarrow> d)"

definition resolve_islowertriangular :: "matrix \<Rightarrow> bool option \<Rightarrow> bool" where
  "resolve_islowertriangular A islowertriangular =
     (case islowertriangular of
        None \<Rightarrow> (if sps_issparse A then False else np_allclose A (np_tril A))
      | Some b \<Rightarrow> b)"

definition resolve_isuppertriangular :: "matrix \<Rightarrow> bool option \<Rightarrow> bool" where
  "resolve_isuppertriangular A isuppertriangular =
     (case isuppertriangular of
        None \<Rightarrow> (if sps_issparse A then False else np_allclose A (np_triu A))
      | Some b \<Rightarrow> b)"

text \<open>
  \<^verbatim>\<open>auto_determine_solver\<close>. In the branches of the triangular flags the code only
  constructs a \<^verbatim>\<open>warnings.WarningMessage\<close> object, and for a sparse non-square matrix
  a \<^verbatim>\<open>SparseEfficiencyWarning\<close> object: nothing is raised or returned there, so the
  branches are the unit value.
\<close>

definition auto_determine_solver ::
  "pymodular \<Rightarrow> matrix \<Rightarrow> bool option \<Rightarrow> bool option \<Rightarrow> bool option \<Rightarrow>
   bool option \<Rightarrow> bool option \<Rightarrow> bool option \<Rightarrow> error + solver" where
  "auto_determine_solver pm A isdiagonal islowertriangular isuppertriangular
       ishermitian issymmetric ispositivedefinite =
     (let issparse = sps_issparse A;
          issquare = (fst (shape A) = snd (shape A))
      in
      if \<not> issquare then
        (let _ = (if issparse then () else ()) in Inr SolverDenseQR)
      else if resolve_isdiagonal pm A isdiagonal then Inr SolverDiagonal
      else
        (let _ = (if resolve_islowertriangular A islowertriangular then () else ());
             _ = (if resolve_isuppertriangular A isuppertriangular then () else ());
             ispermutedtriangular = False;
             _ = (if ispermutedtriangular then () else ())
         in
         case classify_symmetry pm A ishermitian issymmetric of
           Inl e \<Rightarrow> Inl e
         | Inr (ishermitian, issymmetric) \<Rightarrow>
             if issparse then
               (if SolverSparsePardiso_defined pm then
                  Inr (SolverSparsePardiso issymmetric ishermitian ispositivedefinite)
                else if ishermitian then
                  (if diagonal_one_sign A then
                     (if SolverSparseCholeskyScikit_defined pm then
                        Inr SolverSparseCholeskyScikit
                      else if SolverSparseCholeskyCVXOPT_defined pm then
                        Inr SolverSparseCholeskyCVXOPT
                      else Inr SolverSparseLU)
                   else Inr SolverSparseLU)
                else Inr SolverSparseLU)
             else
               (if ishermitian then
                  (if diagonal_one_sign A then Inr SolverDenseCholesky
                   else Inr (SolverDenseLDL ishermitian))
                else if issymmetric then Inr (SolverDenseLDL ishermitian)
                else Inr SolverDenseLU)))"


section \<open>Arrays\<close>

text \<open>
  The right-hand side, the solution and the gradients are one- or two-dimensional
  numpy arrays (a two-dimensional one holds one load case per column and is kept as
  its list of rows). \<^verbatim>\<open>np.iscomplexobj\<close> looks at the element type only.
\<close>

datatype ndarray = Array1 dtype "complex list" | Array2 dtype "complex list list"

fun dtype_of :: "ndarray \<Rightarrow> dtype" where
  "dtype_of (Array1 t xs) = t"
| "dtype_of (Array2 t rows) = t"

fun ndim :: "ndarray \<Rightarrow> nat" where
  "ndim (Array1 t xs) = 1"
| "ndim (Array2 t rows) = 2"

fun flatten :: "ndarray \<Rightarrow> complex list" where
  "flatten (Array1 t xs) = xs"
| "flatten (Array2 t rows) = concat rows"

definition np_iscomplexobj :: "ndarray \<Rightarrow> bool" where
  "np_iscomplexobj a = (dtype_of a = ComplexValued)"

definition np_isrealobj :: "ndarray \<Rightarrow> bool" where
  "np_isrealobj a = (\<not> np_iscomplexobj a)"

fun map_ndarray :: "(complex \<Rightarrow> complex) \<Rightarrow> dtype \<Rightarrow> ndarray \<Rightarrow> ndarray" where
  "map_ndarray f t' (Array1 t xs) = Array1 t' (map f xs)"
| "map_ndarray f t' (Array2 t rows) = Array2 t' (map (map f) rows)"

text \<open>Unary minus and \<^verbatim>\<open>np.conj\<close> keep the element type; \<^verbatim>\<open>np.real\<close> and
  \<^verbatim>\<open>np.imag\<close> give a real-valued array.\<close>

definition np_negative :: "ndarray \<Rightarrow> ndarray" where
  "np_negative a = map_ndarray uminus (dtype_of a) a"

definition np_conj :: "ndarray \<Rightarrow> ndarray" where
  "np_conj a = map_ndarray cnj (dtype_of a) a"

definition np_real :: "ndarray \<Rightarrow> ndarray" where
  "np_real a = map_ndarray (\<lambda>z. complex_of_real (Re z)) RealValued a"

definition np_imag :: "ndarray \<Rightarrow> ndarray" where
  "np_imag a = map_ndarray (\<lambda>z. complex_of_real (Im z)) RealValued a"

definition result_type :: "dtype \<Rightarrow> dtype \<Rightarrow> dtype" where
  "result_type s t = (if s = ComplexValued \<or> t = ComplexValued then ComplexValued else RealValued)"

text \<open>\<^verbatim>\<open>np.outer(a, b)\<close> flattens both arguments; entry \<open>(i, j)\<close> is \<open>a[i] * b[j]\<close>.\<close>

definition outer_rows :: "complex list \<Rightarrow> complex list \<Rightarrow> complex list list" where
  "outer_rows xs ys = map (\<lambda>x. map (\<lambda>y. x * y) ys) xs"

definition np_outer :: "ndarray \<Rightarrow> ndarray \<Rightarrow> ndarray" where
  "np_outer a b =
     Array2 (result_type (dtype_of a) (dtype_of b)) (outer_rows (flatten a) (flatten b))"

text \<open>
  \<^verbatim>\<open>np.einsum("iB,jB->ij", a, b)\<close>: both operands must be two-dimensional; entry
  \<open>(i, j)\<close> is the sum over the columns \<open>B\<close> of \<open>a[i, B] * b[j, B]\<close>. The column counts
  must agree, except that a single column is broadcast; otherwise numpy raises
  \<^verbatim>\<open>ValueError\<close>.
\<close>

definition ncols :: "complex list list \<Rightarrow> nat" where
  "ncols rows = (case rows of [] \<Rightarrow> 0 | r # _ \<Rightarrow> length r)"

definition broadcast_row :: "nat \<Rightarrow> complex list \<Rightarrow> complex list" where
  "broadcast_row n r = (if length r = 1 then replicate n (hd r) else r)"

definition dot_rows :: "complex list \<Rightarrow> complex list \<Rightarrow> complex" where
  "dot_rows r s = sum_list (map2 (\<lambda>x y. x * y) r s)"

definition np_einsum_iB_jB_ij :: "ndarray \<Rightarrow> ndarray \<Rightarrow> error + ndarray" where
  "np_einsum_iB_jB_ij a b =
     (case (a, b) of
        (Array2 ta ra, Array2 tb rb) \<Rightarrow>
          (let ma = ncols ra; mb = ncols rb; m = max ma mb in
           if ma = mb \<or> ma = 1 \<or> mb = 1 then
             Inr (Array2 (result_type ta tb)
                    (map (\<lambda>r. map (\<lambda>s. dot_rows (broadcast_row m r) (broadcast_row m s)) rb) ra))
           else Inl ValueError)
      | _ \<Rightarrow> Inl ValueError)"

text \<open>
  \<^verbatim>\<open>DyadCarrier(u, v)\<close> is imported from the package; the node only constructs it.
  The two arguments are a vector each, or a list of vectors each; a single vector is
  a list of length one.
\<close>

datatype dyadcarrier = DyadCarrier "ndarray list" "ndarray list"

datatype sensitivity_matrix = DenseMatrix ndarray | Dyads dyadcarrier

section \<open>The node LinSolve\<close>

text \<open>
  The solver classes and \<^verbatim>\<open>LDAWrapper\<close> are imported from the package. A solver object
  is a value of a type \<open>'sv\<close> the node does not look into; it only constructs objects,
  asks \<^verbatim>\<open>isinstance(solver, LDAWrapper)\<close> and calls \<^verbatim>\<open>update\<close>, \<^verbatim>\<open>solve\<close> and
  \<^verbatim>\<open>adjoint\<close>. These are parameters of the node. The calls mutate the object, so
  each returns the object after the call; each may raise.
\<close>

record 'sv solver_ops =
  instantiate :: "solver \<Rightarrow> 'sv"
  LDAWrapper :: "'sv \<Rightarrow> 'sv"
  isinstance_LDAWrapper :: "'sv \<Rightarrow> bool"
  solver_update :: "'sv \<Rightarrow> matrix \<Rightarrow> solver_error + 'sv"
  solver_solve :: "'sv \<Rightarrow> ndarray \<Rightarrow> solver_error + (ndarray \<times> 'sv)"
  solver_adjoint :: "'sv \<Rightarrow> ndarray \<Rightarrow> solver_error + (ndarray \<times> 'sv)"

text \<open>
  The attributes of the node. \<^verbatim>\<open>_prepare\<close> sets the first four; \<^verbatim>\<open>issparse\<close>,
  \<^verbatim>\<open>iscomplex\<close> and \<^verbatim>\<open>u\<close> do not exist before the first forward pass. The methods
  \<^verbatim>\<open>_prepare\<close>, \<^verbatim>\<open>_response\<close> and \<^verbatim>\<open>_sensitivity\<close> are \<open>LinSolve_prepare\<close>,
  \<open>LinSolve_response\<close> and \<open>LinSolve_sensitivity\<close>; each takes the node and returns
  the node after the call. An exception leaves no node to continue with.
\<close>

record 'sv LinSolve =
  self_dep_tol :: real
  self_ishermitian :: "bool option"
  self_issymmetric :: "bool option"
  self_solver :: "'sv option"
  self_issparse :: "bool option"
  self_iscomplex :: "bool option"
  self_u :: "ndarray option"

text \<open>The default value of the keyword argument \<^verbatim>\<open>dep_tol\<close>; the other three default
  to \<^verbatim>\<open>None\<close>.\<close>

definition dep_tol_default :: real where
  "dep_tol_default = 1 / 10 ^ 5"

definition LinSolve_prepare ::
  "real \<Rightarrow> bool option \<Rightarrow> bool option \<Rightarrow> 'sv option \<Rightarrow> 'sv LinSolve" where
  "LinSolve_prepare dep_tol hermitian symmetric solver =
     \<lparr>self_dep_tol = dep_tol, self_ishermitian = hermitian, self_issymmetric = symmetric,
      self_solver = solver, self_issparse = None, self_iscomplex = None, self_u = None\<rparr>"

text \<open>Lines 130 to 135 of \<^verbatim>\<open>_response\<close>: the detections on the matrix type.\<close>

definition LinSolve_detect :: "pymodular \<Rightarrow> 'sv LinSolve \<Rightarrow> matrix \<Rightarrow> 'sv LinSolve" where
  "LinSolve_detect pm self mat =
     (let self = self\<lparr>self_issparse := Some (sps_issparse mat)\<rparr>;
          self = self\<lparr>self_iscomplex := Some (iscomplexobj_matrix mat)\<rparr>;
          self = (if \<not> iscomplexobj_matrix mat \<and> self_issymmetric self \<noteq> None
                  then self\<lparr>self_ishermitian := self_issymmetric self\<rparr> else self);
          self = (if self_ishermitian self = None
                  then self\<lparr>self_ishermitian := Some (matrix_is_hermitian pm mat)\<rparr> else self)
      in self)"

text \<open>
  \<^verbatim>\<open>_response\<close>: the solution and the node after the call, or the exception raised.
  The wrapper is constructed from the solver alone: \<^verbatim>\<open>LDAWrapper(self.solver)\<close>.
\<close>

definition LinSolve_response ::
  "pymodular \<Rightarrow> 'sv solver_ops \<Rightarrow> 'sv LinSolve \<Rightarrow> matrix \<Rightarrow> ndarray \<Rightarrow>
   error + (ndarray \<times> 'sv LinSolve)" where
  "LinSolve_response pm ops self mat rhs =
     (let self = LinSolve_detect pm self mat in
      case (case self_solver self of
              None \<Rightarrow> map_sum id (instantiate ops)
                        (auto_determine_solver pm mat None None None (self_ishermitian self) None None)
            | Some sv \<Rightarrow> Inr sv) of
        Inl e \<Rightarrow> Inl e
      | Inr sv \<Rightarrow>
          (let sv = (if \<not> isinstance_LDAWrapper ops sv then LDAWrapper ops sv else sv) in
           case solver_update ops sv mat of
             Inl e \<Rightarrow> Inl (SolverError e)
           | Inr sv \<Rightarrow>
               (case solver_solve ops sv rhs of
                  Inl e \<Rightarrow> Inl (SolverError e)
                | Inr (u, sv) \<Rightarrow> Inr (u, self\<lparr>self_solver := Some sv, self_u := Some u\<rparr>))))"

text \<open>
  \<^verbatim>\<open>_sensitivity\<close>, with the states \<open>(mat, rhs)\<close> of the input signals: the pair
  \<open>(dmat, db)\<close> and the node after the call. Reading an attribute that was never set
  raises \<^verbatim>\<open>AttributeError\<close>. The warning issued in the mixed real/complex sparse
  branch has no effect on the result.
\<close>

definition LinSolve_sensitivity ::
  "'sv solver_ops \<Rightarrow> 'sv LinSolve \<Rightarrow> matrix \<times> ndarray \<Rightarrow> ndarray \<Rightarrow>
   error + ((sensitivity_matrix \<times> ndarray) \<times> 'sv LinSolve)" where
  "LinSolve_sensitivity ops self sig_in dfdv =
     (let (mat, rhs) = sig_in in
      case self_solver self of
        None \<Rightarrow> Inl AttributeError
      | Some sv \<Rightarrow>
     (case solver_adjoint ops sv dfdv of
        Inl e \<Rightarrow> Inl (SolverError e)
      | Inr (lam, sv) \<Rightarrow>
     (case (self_issparse self, self_iscomplex self, self_u self) of
        (Some issparse, Some iscomplex, Some u) \<Rightarrow>
          (case (if issparse then
                   (if \<not> iscomplex \<and> (np_iscomplexobj u \<or> np_iscomplexobj lam) then
                      Inr (Dyads (DyadCarrier
                             [np_negative (np_real lam), np_negative (np_imag lam)]
                             [np_real u, np_imag u]))
                    else Inr (Dyads (DyadCarrier [np_negative lam] [u])))
                 else
                   (case (if ndim u > 1
                          then np_einsum_iB_jB_ij (np_negative lam) (np_conj u)
                          else Inr (np_outer (np_negative lam) (np_conj u))) of
                      Inl e \<Rightarrow> Inl e
                    | Inr dmat \<Rightarrow>
                        Inr (DenseMatrix (if \<not> iscomplex then np_real dmat else dmat)))) of
             Inl e \<Rightarrow> Inl e
           | Inr dmat \<Rightarrow>
               (let db = (if np_isrealobj rhs then np_real lam else lam) in
                Inr ((dmat, db), self\<lparr>self_solver := Some sv\<rparr>)))
      | _ \<Rightarrow> Inl AttributeError)))"

section \<open>The package side, from the specification\<close>

text \<open>
  Modelled from the spec: the structure checks \<^verbatim>\<open>matrix_is_diagonal\<close>,
  \<^verbatim>\<open>matrix_is_symmetric\<close> and \<^verbatim>\<open>matrix_is_hermitian\<close> are not among the source
  files. Section 4.2 describes them as equality within tolerance: of the matrix with
  its diagonal part, with its transpose, and with its conjugate transpose.
\<close>

definition diagonal_part :: "matrix \<Rightarrow> matrix" where
  "diagonal_part A = A\<lparr>entry := (\<lambda>i j. if i = j then entry A i j else 0)\<rparr>"

definition transpose_matrix :: "matrix \<Rightarrow> matrix" where
  "transpose_matrix A = A\<lparr>shape := (snd (shape A), fst (shape A)), entry := (\<lambda>i j. entry A j i)\<rparr>"

definition conj_transpose :: "matrix \<Rightarrow> matrix" where
  "conj_transpose A =
     A\<lparr>shape := (snd (shape A), fst (shape A)), entry := (\<lambda>i j. cnj (entry A j i))\<rparr>"

definition spec_pymodular :: "bool \<Rightarrow> bool \<Rightarrow> bool \<Rightarrow> pymodular" where
  "spec_pymodular pardiso scikit cvxopt =
     \<lparr>matrix_is_diagonal = (\<lambda>A. np_allclose A (diagonal_part A)),
      matrix_is_symmetric = (\<lambda>A. np_allclose A (transpose_matrix A)),
      matrix_is_hermitian = (\<lambda>A. np_allclose A (conj_transpose A)),
      SolverSparsePardiso_defined = pardiso,
      SolverSparseCholeskyScikit_defined = scikit,
      SolverSparseCholeskyCVXOPT_defined = cvxopt\<rparr>"

text \<open>
  Modelled from the spec: the solver classes and \<^verbatim>\<open>LDAWrapper\<close> are not among the
  source files. By sections 4.3 and 4.4 a solver keeps the matrix it was last given
  (its factorization), \<open>factorize\<close> fails with \<^verbatim>\<open>SingularMatrixError\<close> on a matrix that
  is cheaply seen to be singular (for the diagonal solver: a zero on the diagonal),
  \<open>solve\<close> solves \<open>A x = rhs\<close> and \<open>adjoint_solve\<close> solves \<open>A\<^sup>T \<lambda> = rhs\<close>. The diagonal
  solver divides elementwise by the diagonal (section 8), for the forward and for
  the adjoint system alike. The factorizations of the other classes stay parameters
  \<open>k\<close>. The wrapper answers with a genuine solve of the wrapped solver unless an
  earlier adjoint right-hand side is cached; its cache is not modelled, so it always
  performs the genuine solve.
\<close>

datatype spec_solver = LinearSolver solver "matrix option" | Wrapped spec_solver

definition diag_divide :: "matrix \<Rightarrow> ndarray \<Rightarrow> solver_error + ndarray" where
  "diag_divide A b =
     (case b of
        Array1 t xs \<Rightarrow>
          (if length xs = length (diagonal A)
           then Inr (Array1 (result_type (mdtype A) t) (map2 (\<lambda>d x. x / d) (diagonal A) xs))
           else Inl NumericalSolveError)
      | Array2 t rows \<Rightarrow>
          (if length rows = length (diagonal A)
           then Inr (Array2 (result_type (mdtype A) t)
                       (map2 (\<lambda>d row. map (\<lambda>x. x / d) row) (diagonal A) rows))
           else Inl NumericalSolveError))"

fun spec_update :: "spec_solver \<Rightarrow> matrix \<Rightarrow> solver_error + spec_solver" where
  "spec_update (LinearSolver c m) A =
     (if c = SolverDiagonal \<and> list_ex (\<lambda>d. d = 0) (diagonal A)
      then Inl SingularMatrixError else Inr (LinearSolver c (Some A)))"
| "spec_update (Wrapped s) A =
     (case spec_update s A of Inl e \<Rightarrow> Inl e | Inr s' \<Rightarrow> Inr (Wrapped s'))"

fun spec_solve ::
  "(solver \<Rightarrow> matrix \<Rightarrow> ndarray \<Rightarrow> ndarray) \<Rightarrow> spec_solver \<Rightarrow> ndarray \<Rightarrow>
   solver_error + (ndarray \<times> spec_solver)" where
  "spec_solve k (LinearSolver c None) b = Inl NumericalSolveError"
| "spec_solve k (LinearSolver c (Some A)) b =
     (case (if c = SolverDiagonal then diag_divide A b else Inr (k c A b)) of
        Inl e \<Rightarrow> Inl e
      | Inr x \<Rightarrow> Inr (x, LinearSolver c (Some A)))"
| "spec_solve k (Wrapped s) b =
     (case spec_solve k s b of Inl e \<Rightarrow> Inl e | Inr (x, s') \<Rightarrow> Inr (x, Wrapped s'))"

fun is_Wrapped :: "spec_solver \<Rightarrow> bool" where
  "is_Wrapped (Wrapped s) = True"
| "is_Wrapped (LinearSolver c m) = False"

definition spec_ops ::
  "(solver \<Rightarrow> matrix \<Rightarrow> ndarray \<Rightarrow> ndarray) \<Rightarrow> (solver \<Rightarrow> matrix \<Rightarrow> ndarray \<Rightarrow> ndarray) \<Rightarrow>
   spec_solver solver_ops" where
  "spec_ops k k_adjoint =
     \<lparr>instantiate = (\<lambda>c. LinearSolver c None),
      LDAWrapper = Wrapped,
      isinstance_LDAWrapper = is_Wrapped,
      solver_update = spec_update,
      solver_solve = spec_solve k,
      solver_adjoint = spec_solve k_adjoint\<rparr>"

text \<open>
  Modelled from the spec: the class \<^verbatim>\<open>DyadCarrier\<close> is not among the source files.
  Section 4.5 has the matrix sensitivity sum outer-product contributions, and the
  mixed real/complex path combine real and imaginary components: a carrier built from
  the vectors \<open>u\<^sub>k\<close> and \<open>v\<^sub>k\<close> stands for the sum of the dyads \<open>u\<^sub>k \<otimes> v\<^sub>k\<close>. Nothing
  is said about carriers of two-dimensional arrays.
\<close>

fun sum_matrices :: "complex list list list \<Rightarrow> complex list list" where
  "sum_matrices [] = []"
| "sum_matrices [m] = m"
| "sum_matrices (m # ms) = map2 (map2 (\<lambda>x y. x + y)) m (sum_matrices ms)"

fun dyads_todense :: "dyadcarrier \<Rightarrow> complex list list option" where
  "dyads_todense (DyadCarrier us vs) =
     (if list_all (\<lambda>a. ndim a = 1) us \<and> list_all (\<lambda>a. ndim a = 1) vs \<and> length us = length vs
      then Some (sum_matrices (map2 (\<lambda>u v. outer_rows (flatten u) (flatten v)) us vs))
      else None)"

section \<open>Example inputs\<close>

text \<open>The dense matrix \<open>diag([2, 4])\<close>, and the same matrix stored sparse.\<close>

definition diag_2_4 :: "nat \<Rightarrow> nat \<Rightarrow> complex" where
  "diag_2_4 i j = (if i = 0 \<and> j = 0 then 2 else if i = 1 \<and> j = 1 then 4 else 0)"

definition dense_diag_2_4 :: matrix where
  "dense_diag_2_4 = \<lparr>sparse = False, mdtype = RealValued, shape = (2, 2), entry = diag_2_4\<rparr>"

definition sparse_diag_2_4 :: matrix where
  "sparse_diag_2_4 = \<lparr>sparse = True, mdtype = RealValued, shape = (2, 2), entry = diag_2_4\<rparr>"

text \<open>The dense lower triangular matrix \<open>[[1, 0], [1, 1]]\<close>.\<close>

definition dense_lower_1_0_1_1 :: matrix where
  "dense_lower_1_0_1_1 =
     \<lparr>sparse = False, mdtype = RealValued, shape = (2, 2),
      entry = (\<lambda>i j. if j \<le> i \<and> i \<le> 1 then 1 else 0)\<rparr>"

text \<open>A dense and a sparse \<open>1 \<times> 2\<close> matrix \<open>[[1, 1]]\<close>.\<close>

definition dense_1_by_2 :: matrix where
  "dense_1_by_2 =
     \<lparr>sparse = False, mdtype = RealValued, shape = (1, 2), entry = (\<lambda>i j. 1)\<rparr>"

definition sparse_1_by_2 :: matrix where
  "sparse_1_by_2 =
     \<lparr>sparse = True, mdtype = RealValued, shape = (1, 2), entry = (\<lambda>i j. 1)\<rparr>"

text \<open>The sparse complex-valued \<open>1 \<times> 1\<close> matrix \<open>[[1 + 0j]]\<close>.\<close>

definition sparse_complex_1 :: matrix where
  "sparse_complex_1 =
     \<lparr>sparse = True, mdtype = ComplexValued, shape = (1, 1), entry = (\<lambda>i j. 1)\<rparr>"

text \<open>The symmetric matrix \<open>[[2, 1], [1, 2]]\<close> with positive diagonal, dense and sparse.\<close>

definition sym_2_1_1_2 :: "nat \<Rightarrow> nat \<Rightarrow> complex" where
  "sym_2_1_1_2 i j = (if i = j then 2 else 1)"

definition dense_sym_2_1_1_2 :: matrix where
  "dense_sym_2_1_1_2 =
     \<lparr>sparse = False, mdtype = RealValued, shape = (2, 2), entry = sym_2_1_1_2\<rparr>"

definition sparse_sym_2_1_1_2 :: matrix where
  "sparse_sym_2_1_1_2 =
     \<lparr>sparse = True, mdtype = RealValued, shape = (2, 2), entry = sym_2_1_1_2\<rparr>"

text \<open>A factorization kernel for the example runs, where only the diagonal solver solves.\<close>

definition no_kernel :: "solver \<Rightarrow> matrix \<Rightarrow> ndarray \<Rightarrow> ndarray" where
  "no_kernel c A b = b"

text \<open>
  The node after a forward pass with the diagonal solver on the matrix \<open>A\<close>, with
  solution \<open>u\<close>: the shape of the results in the example runs.
\<close>

definition solved_node ::
  "real \<Rightarrow> bool option \<Rightarrow> bool option \<Rightarrow> matrix \<Rightarrow> ndarray \<Rightarrow> spec_solver LinSolve" where
  "solved_node d hermitian symmetric A u =
     \<lparr>self_dep_tol = d, self_ishermitian = hermitian, self_issymmetric = symmetric,
      self_solver = Some (Wrapped (LinearSolver SolverDiagonal (Some A))),
      self_issparse = Some (sparse A), self_iscomplex = Some (mdtype A = ComplexValued),
      self_u = Some u\<rparr>"

section \<open>Evaluating the examples\<close>

lemma upt_0_2: "[0..<2] = [0, Suc 0]"
  by (simp add: upt_rec)

lemma dense_diag_2_4_fields:
  "sparse dense_diag_2_4 = False" "mdtype dense_diag_2_4 = RealValued"
  "shape dense_diag_2_4 = (2, 2)" "entry dense_diag_2_4 = diag_2_4"
  by (simp_all add: dense_diag_2_4_def)

lemma dense_lower_fields:
  "sparse dense_lower_1_0_1_1 = False" "mdtype dense_lower_1_0_1_1 = RealValued"
  "shape dense_lower_1_0_1_1 = (2, 2)"
  by (simp_all add: dense_lower_1_0_1_1_def)

lemma dense_sym_fields:
  "sparse dense_sym_2_1_1_2 = False" "mdtype dense_sym_2_1_1_2 = RealValued"
  "shape dense_sym_2_1_1_2 = (2, 2)" "entry dense_sym_2_1_1_2 = sym_2_1_1_2"
  by (simp_all add: dense_sym_2_1_1_2_def)

lemma sparse_sym_fields:
  "sparse sparse_sym_2_1_1_2 = True" "mdtype sparse_sym_2_1_1_2 = RealValued"
  "shape sparse_sym_2_1_1_2 = (2, 2)" "entry sparse_sym_2_1_1_2 = sym_2_1_1_2"
  by (simp_all add: sparse_sym_2_1_1_2_def)

lemma dense_diag_2_4_is_diagonal:
  "matrix_is_diagonal (spec_pymodular p s c) dense_diag_2_4"
  by (simp add: spec_pymodular_def np_allclose_def diagonal_part_def dense_diag_2_4_fields
      isclose_def diag_2_4_def upt_0_2)

lemma dense_diag_2_4_is_hermitian:
  "matrix_is_hermitian (spec_pymodular p s c) dense_diag_2_4"
  by (simp add: spec_pymodular_def np_allclose_def conj_transpose_def dense_diag_2_4_fields
      isclose_def diag_2_4_def upt_0_2)

lemma dense_lower_not_diagonal:
  "\<not> matrix_is_diagonal (spec_pymodular p s c) dense_lower_1_0_1_1"
  by (simp add: spec_pymodular_def np_allclose_def diagonal_part_def dense_lower_1_0_1_1_def
      isclose_def upt_0_2)

lemma dense_lower_not_symmetric:
  "\<not> matrix_is_symmetric (spec_pymodular p s c) dense_lower_1_0_1_1"
  by (simp add: spec_pymodular_def np_allclose_def transpose_matrix_def dense_lower_1_0_1_1_def
      isclose_def upt_0_2)

lemma dense_lower_is_lower:
  "np_allclose dense_lower_1_0_1_1 (np_tril dense_lower_1_0_1_1)"
  by (simp add: np_allclose_def np_tril_def dense_lower_1_0_1_1_def isclose_def upt_0_2)

lemma sym_not_diagonal:
  "\<not> matrix_is_diagonal (spec_pymodular p s c) dense_sym_2_1_1_2"
  "\<not> matrix_is_diagonal (spec_pymodular p s c) sparse_sym_2_1_1_2"
  by (simp_all add: spec_pymodular_def np_allclose_def diagonal_part_def dense_sym_fields
      sparse_sym_fields isclose_def sym_2_1_1_2_def upt_0_2)

lemma sym_is_symmetric:
  "matrix_is_symmetric (spec_pymodular p s c) dense_sym_2_1_1_2"
  "matrix_is_symmetric (spec_pymodular p s c) sparse_sym_2_1_1_2"
  by (simp_all add: spec_pymodular_def np_allclose_def transpose_matrix_def dense_sym_fields
      sparse_sym_fields isclose_def sym_2_1_1_2_def upt_0_2)

lemma sym_diagonal_one_sign:
  "diagonal_one_sign dense_sym_2_1_1_2" "diagonal_one_sign sparse_sym_2_1_1_2"
  by (simp_all add: diagonal_one_sign_def diagonal_def dense_sym_fields sparse_sym_fields
      sym_2_1_1_2_def upt_0_2 gt0_def)

lemma sparse_diag_2_4_fields:
  "sparse sparse_diag_2_4 = True" "mdtype sparse_diag_2_4 = RealValued"
  "shape sparse_diag_2_4 = (2, 2)" "entry sparse_diag_2_4 = diag_2_4"
  by (simp_all add: sparse_diag_2_4_def)

lemma sparse_complex_1_fields:
  "sparse sparse_complex_1 = True" "mdtype sparse_complex_1 = ComplexValued"
  "shape sparse_complex_1 = (1, 1)" "entry sparse_complex_1 = (\<lambda>i j. 1)"
  by (simp_all add: sparse_complex_1_def)

lemma diagonal_diag_2_4:
  "diagonal dense_diag_2_4 = [2, 4]" "diagonal sparse_diag_2_4 = [2, 4]"
  by (simp_all add: diagonal_def dense_diag_2_4_fields sparse_diag_2_4_fields diag_2_4_def upt_0_2)

lemma diagonal_sparse_complex_1: "diagonal sparse_complex_1 = [1]"
  by (simp add: diagonal_def sparse_complex_1_fields)

lemma sparse_diag_2_4_checks:
  "matrix_is_diagonal (spec_pymodular p s c) sparse_diag_2_4"
  "matrix_is_hermitian (spec_pymodular p s c) sparse_diag_2_4"
  by (simp_all add: spec_pymodular_def np_allclose_def diagonal_part_def conj_transpose_def
      sparse_diag_2_4_fields isclose_def diag_2_4_def upt_0_2)

lemma sparse_complex_1_checks:
  "matrix_is_diagonal (spec_pymodular p s c) sparse_complex_1"
  "matrix_is_hermitian (spec_pymodular p s c) sparse_complex_1"
  by (simp_all add: spec_pymodular_def np_allclose_def diagonal_part_def conj_transpose_def
      sparse_complex_1_fields isclose_def)

section \<open>Properties of the classifier\<close>

text \<open>
  Past the square and diagonal checks the triangular flags are computed and dropped,
  and the selection is the symmetry classification followed by the sparse or the
  dense table.
\<close>

lemma auto_determine_solver_past_diagonal:
  assumes "fst (shape A) = snd (shape A)" and "\<not> resolve_isdiagonal pm A isdiagonal"
  shows "auto_determine_solver pm A isdiagonal lt ut ishermitian issymmetric pd =
     (case classify_symmetry pm A ishermitian issymmetric of
        Inl e \<Rightarrow> Inl e
      | Inr (h, s) \<Rightarrow>
          if sps_issparse A then
            (if SolverSparsePardiso_defined pm then Inr (SolverSparsePardiso s h pd)
             else if h then
               (if diagonal_one_sign A then
                  (if SolverSparseCholeskyScikit_defined pm then Inr SolverSparseCholeskyScikit
                   else if SolverSparseCholeskyCVXOPT_defined pm
                     then Inr SolverSparseCholeskyCVXOPT
                   else Inr SolverSparseLU)
                else Inr SolverSparseLU)
             else Inr SolverSparseLU)
          else
            (if h then
               (if diagonal_one_sign A then Inr SolverDenseCholesky
                else Inr (SolverDenseLDL h))
             else if s then Inr (SolverDenseLDL h)
             else Inr SolverDenseLU))"
  using assms by (simp add: auto_determine_solver_def Let_def)

lemma classify_symmetry_no_override:
  "classify_symmetry pm A None None =
     Inr (if iscomplexobj_matrix A then (matrix_is_hermitian pm A, matrix_is_symmetric pm A)
          else (matrix_is_symmetric pm A, matrix_is_symmetric pm A))"
  by (simp add: classify_symmetry_def Let_def)

text \<open>
  C9. A square matrix that is diagonal (found so by the check, or declared so by the
  caller) gets the diagonal solver, sparse or dense, whatever the signs of its diagonal
  entries and whatever the other overrides say: the diagonal check comes before the
  symmetry classification, so a diagonal positive-definite matrix never reaches
  Cholesky.
\<close>

theorem diagonal_selects_SolverDiagonal:
  assumes "fst (shape A) = snd (shape A)"
    and "isdiagonal = Some True \<or> (isdiagonal = None \<and> matrix_is_diagonal pm A)"
  shows "auto_determine_solver pm A isdiagonal islowertriangular isuppertriangular
           ishermitian issymmetric ispositivedefinite = Inr SolverDiagonal"
  using assms by (auto simp: auto_determine_solver_def resolve_isdiagonal_def)

theorem diagonal_selects_SolverDiagonal_witness:
  "fst (shape dense_diag_2_4) = snd (shape dense_diag_2_4)
   \<and> matrix_is_diagonal (spec_pymodular False False False) dense_diag_2_4
   \<and> diagonal_one_sign dense_diag_2_4
   \<and> auto_determine_solver (spec_pymodular False False False) dense_diag_2_4
        None None None None None None = Inr SolverDiagonal"
proof -
  have sq: "fst (shape dense_diag_2_4) = snd (shape dense_diag_2_4)"
    by (simp add: dense_diag_2_4_fields)
  have dg: "matrix_is_diagonal (spec_pymodular False False False) dense_diag_2_4"
    by (rule dense_diag_2_4_is_diagonal)
  have sg: "diagonal_one_sign dense_diag_2_4"
    by (simp add: diagonal_one_sign_def diagonal_def dense_diag_2_4_fields diag_2_4_def
        upt_0_2 gt0_def)
  from diagonal_selects_SolverDiagonal [OF sq, of None "spec_pymodular False False False"] dg
  have "auto_determine_solver (spec_pymodular False False False) dense_diag_2_4
        None None None None None None = Inr SolverDiagonal"
    by simp
  with sq dg sg show ?thesis by simp
qed

text \<open>
  C6. A matrix that is not square gets the dense QR solver. This holds for a dense
  and for a sparse matrix alike: the sparse case is handled by the dense solver, and
  the classifier raises nothing on a non-square matrix.
\<close>

theorem nonsquare_selects_SolverDenseQR:
  assumes "fst (shape A) \<noteq> snd (shape A)"
  shows "auto_determine_solver pm A isdiagonal islowertriangular isuppertriangular
           ishermitian issymmetric ispositivedefinite = Inr SolverDenseQR"
  using assms by (simp add: auto_determine_solver_def)

theorem nonsquare_selects_SolverDenseQR_witness:
  "fst (shape dense_1_by_2) \<noteq> snd (shape dense_1_by_2)
   \<and> \<not> sps_issparse dense_1_by_2
   \<and> auto_determine_solver (spec_pymodular False False False) dense_1_by_2
        None None None None None None = Inr SolverDenseQR
   \<and> fst (shape sparse_1_by_2) \<noteq> snd (shape sparse_1_by_2)
   \<and> sps_issparse sparse_1_by_2
   \<and> auto_determine_solver (spec_pymodular False False False) sparse_1_by_2
        None None None None None None = Inr SolverDenseQR"
proof -
  have d: "fst (shape dense_1_by_2) \<noteq> snd (shape dense_1_by_2)"
    by (simp add: dense_1_by_2_def)
  have s: "fst (shape sparse_1_by_2) \<noteq> snd (shape sparse_1_by_2)"
    by (simp add: sparse_1_by_2_def)
  have "\<not> sps_issparse dense_1_by_2" "sps_issparse sparse_1_by_2"
    by (simp_all add: sps_issparse_def dense_1_by_2_def sparse_1_by_2_def)
  with d s nonsquare_selects_SolverDenseQR [OF d] nonsquare_selects_SolverDenseQR [OF s]
  show ?thesis by simp
qed

text \<open>
  C4. A dense square matrix that is not diagonal, with the flags \<open>(h, s)\<close> that the
  symmetry classification gives for Hermitian and symmetric (detected, or taken from
  consistent overrides): Cholesky when \<open>h\<close> holds and the diagonal entries are all
  positive or all negative, else LDL when \<open>h\<close> or \<open>s\<close> holds, else LU. Whether the
  matrix is triangular plays no part.
\<close>

theorem dense_selects_Cholesky_LDL_LU:
  assumes "\<not> sps_issparse A" and "fst (shape A) = snd (shape A)"
    and "\<not> resolve_isdiagonal pm A isdiagonal"
    and "classify_symmetry pm A ishermitian issymmetric = Inr (h, s)"
  shows "auto_determine_solver pm A isdiagonal islowertriangular isuppertriangular
           ishermitian issymmetric ispositivedefinite =
         Inr (if h \<and> diagonal_one_sign A then SolverDenseCholesky
              else if h \<or> s then SolverDenseLDL h
              else SolverDenseLU)"
  using assms by (simp add: auto_determine_solver_past_diagonal)

theorem dense_selects_Cholesky_LDL_LU_witness:
  "\<not> sps_issparse dense_sym_2_1_1_2
   \<and> fst (shape dense_sym_2_1_1_2) = snd (shape dense_sym_2_1_1_2)
   \<and> \<not> resolve_isdiagonal (spec_pymodular False False False) dense_sym_2_1_1_2 None
   \<and> classify_symmetry (spec_pymodular False False False) dense_sym_2_1_1_2 None None
       = Inr (True, True)
   \<and> auto_determine_solver (spec_pymodular False False False) dense_sym_2_1_1_2
        None None None None None None = Inr SolverDenseCholesky"
proof -
  let ?pm = "spec_pymodular False False False"
  have a: "\<not> sps_issparse dense_sym_2_1_1_2"
    by (simp add: sps_issparse_def dense_sym_fields)
  have b: "fst (shape dense_sym_2_1_1_2) = snd (shape dense_sym_2_1_1_2)"
    by (simp add: dense_sym_fields)
  have c: "\<not> resolve_isdiagonal ?pm dense_sym_2_1_1_2 None"
    by (simp add: resolve_isdiagonal_def sym_not_diagonal)
  have d: "classify_symmetry ?pm dense_sym_2_1_1_2 None None = Inr (True, True)"
    by (simp add: classify_symmetry_no_override iscomplexobj_matrix_def dense_sym_fields
        sym_is_symmetric)
  from dense_selects_Cholesky_LDL_LU [OF a b c d, of None None None]
  have "auto_determine_solver ?pm dense_sym_2_1_1_2 None None None None None None
          = Inr SolverDenseCholesky"
    by (simp add: sym_diagonal_one_sign)
  with a b c d show ?thesis by simp
qed

text \<open>
  C5. A sparse square matrix that is not diagonal, with the classified flags
  \<open>(h, s)\<close>: Pardiso whenever it is installed, whatever the flags; otherwise, when
  \<open>h\<close> holds and the diagonal entries are all positive or all negative, the scikit
  Cholesky solver if installed, else the CVXOPT Cholesky solver if installed; in every
  other case the sparse LU solver.
\<close>

theorem sparse_selects_Pardiso_Cholesky_LU:
  assumes "sps_issparse A" and "fst (shape A) = snd (shape A)"
    and "\<not> resolve_isdiagonal pm A isdiagonal"
    and "classify_symmetry pm A ishermitian issymmetric = Inr (h, s)"
  shows "auto_determine_solver pm A isdiagonal islowertriangular isuppertriangular
           ishermitian issymmetric ispositivedefinite =
         Inr (if SolverSparsePardiso_defined pm
                then SolverSparsePardiso s h ispositivedefinite
              else if h \<and> diagonal_one_sign A \<and> SolverSparseCholeskyScikit_defined pm
                then SolverSparseCholeskyScikit
              else if h \<and> diagonal_one_sign A \<and> SolverSparseCholeskyCVXOPT_defined pm
                then SolverSparseCholeskyCVXOPT
              else SolverSparseLU)"
  using assms by (simp add: auto_determine_solver_past_diagonal)

theorem sparse_selects_Pardiso_Cholesky_LU_witness:
  "sps_issparse sparse_sym_2_1_1_2
   \<and> fst (shape sparse_sym_2_1_1_2) = snd (shape sparse_sym_2_1_1_2)
   \<and> \<not> resolve_isdiagonal (spec_pymodular False False True) sparse_sym_2_1_1_2 None
   \<and> classify_symmetry (spec_pymodular False False True) sparse_sym_2_1_1_2 None None
       = Inr (True, True)
   \<and> auto_determine_solver (spec_pymodular False False True) sparse_sym_2_1_1_2
        None None None None None None = Inr SolverSparseCholeskyCVXOPT"
proof -
  let ?pm = "spec_pymodular False False True"
  have a: "sps_issparse sparse_sym_2_1_1_2"
    by (simp add: sps_issparse_def sparse_sym_fields)
  have b: "fst (shape sparse_sym_2_1_1_2) = snd (shape sparse_sym_2_1_1_2)"
    by (simp add: sparse_sym_fields)
  have c: "\<not> resolve_isdiagonal ?pm sparse_sym_2_1_1_2 None"
    by (simp add: resolve_isdiagonal_def sym_not_diagonal)
  have d: "classify_symmetry ?pm sparse_sym_2_1_1_2 None None = Inr (True, True)"
    by (simp add: classify_symmetry_no_override iscomplexobj_matrix_def sparse_sym_fields
        sym_is_symmetric)
  have e: "\<not> SolverSparsePardiso_defined ?pm" "\<not> SolverSparseCholeskyScikit_defined ?pm"
    "SolverSparseCholeskyCVXOPT_defined ?pm"
    by (simp_all add: spec_pymodular_def)
  from sparse_selects_Pardiso_Cholesky_LU [OF a b c d, of None None None]
  have "auto_determine_solver ?pm sparse_sym_2_1_1_2 None None None None None None
          = Inr SolverSparseCholeskyCVXOPT"
    by (simp add: sym_diagonal_one_sign e)
  with a b c d show ?thesis by simp
qed

text \<open>
  C3, as stated, fails: the dense lower triangular matrix \<open>[[1, 0], [1, 1]]\<close> is square,
  is not diagonal, is found lower triangular by the check of line 50, and gets the
  general dense LU solver.
\<close>

theorem lower_triangular_selects_SolverDenseLU:
  "\<not> sps_issparse dense_lower_1_0_1_1
   \<and> fst (shape dense_lower_1_0_1_1) = snd (shape dense_lower_1_0_1_1)
   \<and> \<not> matrix_is_diagonal (spec_pymodular False False False) dense_lower_1_0_1_1
   \<and> resolve_islowertriangular dense_lower_1_0_1_1 None
   \<and> auto_determine_solver (spec_pymodular False False False) dense_lower_1_0_1_1
        None None None None None None = Inr SolverDenseLU"
  by (simp add: auto_determine_solver_past_diagonal resolve_isdiagonal_def
      dense_lower_not_diagonal dense_lower_fields sps_issparse_def
      resolve_islowertriangular_def dense_lower_is_lower classify_symmetry_no_override
      iscomplexobj_matrix_def dense_lower_not_symmetric)

text \<open>
  C3, amended. For a dense square matrix that is not diagonal, the triangular flags
  (detected or overridden) have no influence: the result is what it is with both flags
  off, and it is one of dense Cholesky, dense LDL and dense LU (or the assertion
  failure of conflicting overrides). There is no triangular solver to select.
\<close>

theorem triangular_flags_select_nothing:
  assumes "\<not> sps_issparse A" and "fst (shape A) = snd (shape A)"
    and "\<not> resolve_isdiagonal pm A isdiagonal"
  shows "auto_determine_solver pm A isdiagonal islowertriangular isuppertriangular
           ishermitian issymmetric ispositivedefinite =
         auto_determine_solver pm A isdiagonal (Some False) (Some False)
           ishermitian issymmetric ispositivedefinite
       \<and> auto_determine_solver pm A isdiagonal islowertriangular isuppertriangular
           ishermitian issymmetric ispositivedefinite
         \<in> {Inl AssertionError, Inr SolverDenseCholesky, Inr (SolverDenseLDL True),
            Inr (SolverDenseLDL False), Inr SolverDenseLU}"
  using assms
  by (auto simp add: auto_determine_solver_past_diagonal classify_symmetry_def Let_def
      split: sum.splits option.splits)

theorem triangular_flags_select_nothing_witness:
  "\<not> sps_issparse dense_lower_1_0_1_1
   \<and> fst (shape dense_lower_1_0_1_1) = snd (shape dense_lower_1_0_1_1)
   \<and> \<not> resolve_isdiagonal (spec_pymodular False False False) dense_lower_1_0_1_1 None
   \<and> auto_determine_solver (spec_pymodular False False False) dense_lower_1_0_1_1
        None (Some True) None None None None =
      auto_determine_solver (spec_pymodular False False False) dense_lower_1_0_1_1
        None (Some False) (Some False) None None None"
proof -
  let ?pm = "spec_pymodular False False False"
  have a: "\<not> sps_issparse dense_lower_1_0_1_1"
    by (simp add: sps_issparse_def dense_lower_fields)
  have b: "fst (shape dense_lower_1_0_1_1) = snd (shape dense_lower_1_0_1_1)"
    by (simp add: dense_lower_fields)
  have c: "\<not> resolve_isdiagonal ?pm dense_lower_1_0_1_1 None"
    by (simp add: resolve_isdiagonal_def dense_lower_not_diagonal)
  from triangular_flags_select_nothing [OF a b c, of "Some True" None None None None]
  have "auto_determine_solver ?pm dense_lower_1_0_1_1 None (Some True) None None None None =
      auto_determine_solver ?pm dense_lower_1_0_1_1 None (Some False) (Some False) None None None"
    by (rule conjunct1)
  with a b c show ?thesis by simp
qed

text \<open>
  C7, as stated, fails: the real-valued square matrix \<open>diag([2, 4])\<close> with the
  overrides \<open>ishermitian = True\<close> and \<open>issymmetric = False\<close> raises nothing and gets
  the diagonal solver, because the diagonal check returns before the overrides are
  compared.
\<close>

theorem conflicting_overrides_on_diagonal_matrix:
  "\<not> iscomplexobj_matrix dense_diag_2_4
   \<and> fst (shape dense_diag_2_4) = snd (shape dense_diag_2_4)
   \<and> auto_determine_solver (spec_pymodular False False False) dense_diag_2_4
        None None None (Some True) (Some False) None = Inr SolverDiagonal"
  by (simp add: auto_determine_solver_def resolve_isdiagonal_def dense_diag_2_4_is_diagonal
      iscomplexobj_matrix_def dense_diag_2_4_fields)

text \<open>
  C7, amended. For a real-valued square matrix that the diagonal check lets pass:
  with both overrides given and unequal the classifier raises \<^verbatim>\<open>AssertionError\<close>;
  otherwise it raises nothing, and a value \<open>v\<close> supplied for one or for both
  properties is the value of both.
\<close>

theorem real_overrides_must_agree:
  assumes "\<not> iscomplexobj_matrix A" and "fst (shape A) = snd (shape A)"
    and "\<not> resolve_isdiagonal pm A isdiagonal"
  shows "((\<exists>h s. ishermitian = Some h \<and> issymmetric = Some s \<and> h \<noteq> s) \<longrightarrow>
            auto_determine_solver pm A isdiagonal islowertriangular isuppertriangular
              ishermitian issymmetric ispositivedefinite = Inl AssertionError)
       \<and> (\<not> (\<exists>h s. ishermitian = Some h \<and> issymmetric = Some s \<and> h \<noteq> s) \<longrightarrow>
            (\<forall>e. auto_determine_solver pm A isdiagonal islowertriangular isuppertriangular
              ishermitian issymmetric ispositivedefinite \<noteq> Inl e))
       \<and> (\<forall>v. (ishermitian = Some v \<and> (issymmetric = None \<or> issymmetric = Some v))
              \<or> (ishermitian = None \<and> issymmetric = Some v) \<longrightarrow>
            classify_symmetry pm A ishermitian issymmetric = Inr (v, v))"
  using assms
  by (auto simp add: auto_determine_solver_past_diagonal classify_symmetry_def Let_def
      split: sum.splits option.splits)

theorem real_overrides_must_agree_witness:
  "\<not> iscomplexobj_matrix dense_lower_1_0_1_1
   \<and> fst (shape dense_lower_1_0_1_1) = snd (shape dense_lower_1_0_1_1)
   \<and> \<not> resolve_isdiagonal (spec_pymodular False False False) dense_lower_1_0_1_1 None
   \<and> auto_determine_solver (spec_pymodular False False False) dense_lower_1_0_1_1
        None None None (Some True) (Some False) None = Inl AssertionError
   \<and> classify_symmetry (spec_pymodular False False False) dense_lower_1_0_1_1
        (Some True) None = Inr (True, True)"
proof -
  let ?pm = "spec_pymodular False False False"
  have a: "\<not> iscomplexobj_matrix dense_lower_1_0_1_1"
    by (simp add: iscomplexobj_matrix_def dense_lower_fields)
  have b: "fst (shape dense_lower_1_0_1_1) = snd (shape dense_lower_1_0_1_1)"
    by (simp add: dense_lower_fields)
  have c: "\<not> resolve_isdiagonal ?pm dense_lower_1_0_1_1 None"
    by (simp add: resolve_isdiagonal_def dense_lower_not_diagonal)
  from real_overrides_must_agree [OF a b c, of "Some True" "Some False" None None None]
  have d: "auto_determine_solver ?pm dense_lower_1_0_1_1
        None None None (Some True) (Some False) None = Inl AssertionError"
    by blast
  from real_overrides_must_agree [OF a b c, of "Some True" None None None None]
  have e: "classify_symmetry ?pm dense_lower_1_0_1_1 (Some True) None = Inr (True, True)"
    by blast
  from a b c d e show ?thesis by simp
qed

section \<open>Properties of the node\<close>

text \<open>
  The node after the detections of a first forward pass, and the forward pass with the
  package side of the specification on a matrix that the diagonal check accepts.
\<close>

lemma detect_prepare:
  "LinSolve_detect pm (LinSolve_prepare d h s sv) A =
     \<lparr>self_dep_tol = d,
      self_ishermitian =
        (if \<not> iscomplexobj_matrix A \<and> s \<noteq> None then s
         else if h = None then Some (matrix_is_hermitian pm A) else h),
      self_issymmetric = s, self_solver = sv,
      self_issparse = Some (sps_issparse A), self_iscomplex = Some (iscomplexobj_matrix A),
      self_u = None\<rparr>"
  by (auto simp add: LinSolve_detect_def LinSolve_prepare_def Let_def)

lemma spec_response_diagonal:
  assumes sq: "fst (shape A) = snd (shape A)"
    and dg: "matrix_is_diagonal pm A"
    and nz: "\<not> list_ex (\<lambda>d. d = 0) (diagonal A)"
    and sv: "diag_divide A rhs = Inr u"
  shows "LinSolve_response pm (spec_ops k ka) (LinSolve_prepare d h s None) A rhs =
     Inr (u, solved_node d
               (if \<not> iscomplexobj_matrix A \<and> s \<noteq> None then s
                else if h = None then Some (matrix_is_hermitian pm A) else h) s A u)"
proof -
  have cl: "auto_determine_solver pm A None None None x None None = Inr SolverDiagonal" for x
    using sq dg by (simp add: auto_determine_solver_def resolve_isdiagonal_def)
  show ?thesis
    unfolding LinSolve_response_def Let_def detect_prepare
    by (simp add: cl spec_ops_def nz sv solved_node_def sps_issparse_def iscomplexobj_matrix_def)
qed

lemma spec_adjoint_diagonal:
  assumes "diag_divide A dfdv = Inr lam"
  shows "solver_adjoint (spec_ops k ka) (Wrapped (LinearSolver SolverDiagonal (Some A))) dfdv =
     Inr (lam, Wrapped (LinearSolver SolverDiagonal (Some A)))"
  using assms by (simp add: spec_ops_def)

lemma divide_4_8: "diag_divide dense_diag_2_4 (Array1 RealValued [4, 8]) = Inr (Array1 RealValued [2, 2])"
  "diag_divide sparse_diag_2_4 (Array1 RealValued [4, 8]) = Inr (Array1 RealValued [2, 2])"
  by (simp_all add: diag_divide_def diagonal_diag_2_4 result_type_def dense_diag_2_4_fields sparse_diag_2_4_fields)

lemma divide_1_0: "diag_divide dense_diag_2_4 (Array1 RealValued [1, 0]) = Inr (Array1 RealValued [1 / 2, 0])"
  "diag_divide sparse_diag_2_4 (Array1 RealValued [1, 0]) = Inr (Array1 RealValued [1 / 2, 0])"
  by (simp_all add: diag_divide_def diagonal_diag_2_4 result_type_def dense_diag_2_4_fields sparse_diag_2_4_fields)

text \<open>
  C1. The matrix \<open>diag([2, 4])\<close> with right-hand side \<open>[4, 8]\<close>: the forward pass
  returns \<open>x = [2, 2]\<close>; for the output gradient \<open>[1, 0]\<close> the adjoint solve gives
  \<open>\<lambda> = [0.5, 0]\<close>, and the backward pass returns the matrix sensitivity
  \<open>[[-1, -1], [0, 0]]\<close>, which is \<open>-\<lambda> \<otimes> conj(x)\<close>, and the right-hand-side
  sensitivity \<open>[0.5, 0]\<close>. The solver and the structure checks are those of the
  specification; the result does not depend on which optional solvers are installed,
  on the other factorizations or on \<open>dep_tol\<close>.
\<close>

theorem diag_2_4_scenario:
  "LinSolve_response (spec_pymodular p s c) (spec_ops k ka)
       (LinSolve_prepare d None None None) dense_diag_2_4 (Array1 RealValued [4, 8])
     = Inr (Array1 RealValued [2, 2],
            solved_node d (Some True) None dense_diag_2_4 (Array1 RealValued [2, 2]))
   \<and> solver_adjoint (spec_ops k ka) (Wrapped (LinearSolver SolverDiagonal (Some dense_diag_2_4)))
       (Array1 RealValued [1, 0])
     = Inr (Array1 RealValued [1 / 2, 0], Wrapped (LinearSolver SolverDiagonal (Some dense_diag_2_4)))
   \<and> LinSolve_sensitivity (spec_ops k ka)
       (solved_node d (Some True) None dense_diag_2_4 (Array1 RealValued [2, 2]))
       (dense_diag_2_4, Array1 RealValued [4, 8]) (Array1 RealValued [1, 0])
     = Inr ((DenseMatrix (Array2 RealValued [[- 1, - 1], [0, 0]]), Array1 RealValued [1 / 2, 0]),
            solved_node d (Some True) None dense_diag_2_4 (Array1 RealValued [2, 2]))
   \<and> outer_rows (map uminus [1 / 2, 0]) (map cnj [2, 2]) = [[- 1, - 1], [0, 0]]"
proof (intro conjI)
  let ?pm = "spec_pymodular p s c"
  have nz: "\<not> list_ex (\<lambda>d. d = 0) (diagonal dense_diag_2_4)"
    by (simp add: diagonal_diag_2_4)
  show "LinSolve_response ?pm (spec_ops k ka)
       (LinSolve_prepare d None None None) dense_diag_2_4 (Array1 RealValued [4, 8])
     = Inr (Array1 RealValued [2, 2],
            solved_node d (Some True) None dense_diag_2_4 (Array1 RealValued [2, 2]))"
    using spec_response_diagonal [OF _ dense_diag_2_4_is_diagonal nz divide_4_8(1),
        of p s c k ka d None None]
    by (simp add: dense_diag_2_4_is_hermitian dense_diag_2_4_fields)
  show a: "solver_adjoint (spec_ops k ka) (Wrapped (LinearSolver SolverDiagonal (Some dense_diag_2_4)))
       (Array1 RealValued [1, 0])
     = Inr (Array1 RealValued [1 / 2, 0], Wrapped (LinearSolver SolverDiagonal (Some dense_diag_2_4)))"
    by (rule spec_adjoint_diagonal [OF divide_1_0(1)])
  show "LinSolve_sensitivity (spec_ops k ka)
       (solved_node d (Some True) None dense_diag_2_4 (Array1 RealValued [2, 2]))
       (dense_diag_2_4, Array1 RealValued [4, 8]) (Array1 RealValued [1, 0])
     = Inr ((DenseMatrix (Array2 RealValued [[- 1, - 1], [0, 0]]), Array1 RealValued [1 / 2, 0]),
            solved_node d (Some True) None dense_diag_2_4 (Array1 RealValued [2, 2]))"
    by (simp add: LinSolve_sensitivity_def solved_node_def a dense_diag_2_4_fields
        np_outer_def np_negative_def np_conj_def np_real_def outer_rows_def result_type_def
        np_isrealobj_def np_iscomplexobj_def)
  show "outer_rows (map uminus [1 / 2, 0]) (map cnj [2, 2]) = [[- 1, - 1], [0, 0]]"
    by (simp add: outer_rows_def)
qed

text \<open>The same scenario with the matrix stored sparse: the carrier returned stands for
  the same matrix sensitivity.\<close>

lemma sparse_diag_2_4_scenario:
  "LinSolve_response (spec_pymodular p s c) (spec_ops k ka)
       (LinSolve_prepare d None None None) sparse_diag_2_4 (Array1 RealValued [4, 8])
     = Inr (Array1 RealValued [2, 2],
            solved_node d (Some True) None sparse_diag_2_4 (Array1 RealValued [2, 2]))
   \<and> LinSolve_sensitivity (spec_ops k ka)
       (solved_node d (Some True) None sparse_diag_2_4 (Array1 RealValued [2, 2]))
       (sparse_diag_2_4, Array1 RealValued [4, 8]) (Array1 RealValued [1, 0])
     = Inr ((Dyads (DyadCarrier [Array1 RealValued [- (1 / 2), 0]] [Array1 RealValued [2, 2]]),
             Array1 RealValued [1 / 2, 0]),
            solved_node d (Some True) None sparse_diag_2_4 (Array1 RealValued [2, 2]))
   \<and> dyads_todense (DyadCarrier [Array1 RealValued [- (1 / 2), 0]] [Array1 RealValued [2, 2]])
     = Some [[- 1, - 1], [0, 0]]"
proof (intro conjI)
  let ?pm = "spec_pymodular p s c"
  have nz: "\<not> list_ex (\<lambda>d. d = 0) (diagonal sparse_diag_2_4)"
    by (simp add: diagonal_diag_2_4)
  show "LinSolve_response ?pm (spec_ops k ka)
       (LinSolve_prepare d None None None) sparse_diag_2_4 (Array1 RealValued [4, 8])
     = Inr (Array1 RealValued [2, 2],
            solved_node d (Some True) None sparse_diag_2_4 (Array1 RealValued [2, 2]))"
    using spec_response_diagonal [OF _ sparse_diag_2_4_checks(1) nz divide_4_8(2),
        of p s c k ka d None None]
    by (simp add: sparse_diag_2_4_checks sparse_diag_2_4_fields)
  have a: "solver_adjoint (spec_ops k ka)
       (Wrapped (LinearSolver SolverDiagonal (Some sparse_diag_2_4))) (Array1 RealValued [1, 0])
     = Inr (Array1 RealValued [1 / 2, 0], Wrapped (LinearSolver SolverDiagonal (Some sparse_diag_2_4)))"
    by (rule spec_adjoint_diagonal [OF divide_1_0(2)])
  show "LinSolve_sensitivity (spec_ops k ka)
       (solved_node d (Some True) None sparse_diag_2_4 (Array1 RealValued [2, 2]))
       (sparse_diag_2_4, Array1 RealValued [4, 8]) (Array1 RealValued [1, 0])
     = Inr ((Dyads (DyadCarrier [Array1 RealValued [- (1 / 2), 0]] [Array1 RealValued [2, 2]]),
             Array1 RealValued [1 / 2, 0]),
            solved_node d (Some True) None sparse_diag_2_4 (Array1 RealValued [2, 2]))"
    by (simp add: LinSolve_sensitivity_def solved_node_def a sparse_diag_2_4_fields
        np_negative_def np_real_def np_isrealobj_def np_iscomplexobj_def)
  show "dyads_todense (DyadCarrier [Array1 RealValued [- (1 / 2), 0]] [Array1 RealValued [2, 2]])
     = Some [[- 1, - 1], [0, 0]]"
    by (simp add: outer_rows_def)
qed

text \<open>
  The three paths of \<^verbatim>\<open>_sensitivity\<close>. The dense path returns \<open>-\<lambda> \<otimes> conj(u)\<close>
  for vectors, and for arrays of the same number of columns \<open>B\<close> the entries
  \<open>\<Sum>\<^sub>B -\<lambda>[i, B] * conj(u[j, B])\<close>; for a real-valued matrix it returns the real
  part. The sparse path for a real-valued matrix with a complex solution or adjoint
  builds a carrier that stands for the real part of \<open>-\<lambda> \<otimes> conj(u)\<close>. The sparse
  path for a complex-valued matrix builds the carrier of \<open>-\<lambda>\<close> and \<open>u\<close> itself,
  which stands for \<open>-\<lambda> \<otimes> u\<close>: the conjugation of the other two paths is missing.
\<close>

lemma sensitivity_sparse_complex_matrix:
  assumes "self_solver self = Some sv" and "solver_adjoint ops sv dfdv = Inr (lam, sv')"
    and "self_issparse self = Some True" and "self_iscomplex self = Some True"
    and "self_u self = Some u"
  shows "LinSolve_sensitivity ops self (mat, rhs) dfdv =
     Inr ((Dyads (DyadCarrier [np_negative lam] [u]),
           if np_isrealobj rhs then np_real lam else lam), self\<lparr>self_solver := Some sv'\<rparr>)"
  using assms by (simp add: LinSolve_sensitivity_def)

lemma dyads_todense_single:
  "dyads_todense (DyadCarrier [np_negative (Array1 t ls)] [Array1 t' us]) =
     Some (outer_rows (map uminus ls) us)"
  by (simp add: np_negative_def)

lemma sensitivity_dense_vector:
  assumes "self_solver self = Some sv"
    and "solver_adjoint ops sv dfdv = Inr (Array1 t ls, sv')"
    and "self_issparse self = Some False" and "self_iscomplex self = Some cx"
    and "self_u self = Some (Array1 t' us)"
  shows "LinSolve_sensitivity ops self (mat, rhs) dfdv =
     Inr ((DenseMatrix
             (if cx then Array2 (result_type t t') (outer_rows (map uminus ls) (map cnj us))
              else Array2 RealValued
                     (map (map (\<lambda>z. complex_of_real (Re z)))
                        (outer_rows (map uminus ls) (map cnj us)))),
           if np_isrealobj rhs then np_real (Array1 t ls) else Array1 t ls),
          self\<lparr>self_solver := Some sv'\<rparr>)"
  using assms
  by (simp add: LinSolve_sensitivity_def np_outer_def np_negative_def np_conj_def np_real_def)

lemma broadcast_row_same: "length r = m \<Longrightarrow> broadcast_row m r = r"
  by (cases r) (auto simp add: broadcast_row_def)

lemma ncols_rows: "rows \<noteq> [] \<Longrightarrow> list_all (\<lambda>r. length r = m) rows \<Longrightarrow> ncols rows = m"
  by (cases rows) (simp_all add: ncols_def)

lemma einsum_equal_columns:
  assumes "ra \<noteq> []" and "rb \<noteq> []"
    and "list_all (\<lambda>r. length r = m) ra" and "list_all (\<lambda>r. length r = m) rb"
  shows "np_einsum_iB_jB_ij (Array2 ta ra) (Array2 tb rb) =
     Inr (Array2 (result_type ta tb) (map (\<lambda>r. map (\<lambda>s. dot_rows r s) rb) ra))"
proof -
  have "ncols ra = m" "ncols rb = m"
    using assms by (simp_all add: ncols_rows)
  moreover have "map (\<lambda>r. map (\<lambda>s. dot_rows (broadcast_row m r) (broadcast_row m s)) rb) ra
      = map (\<lambda>r. map (\<lambda>s. dot_rows r s) rb) ra"
    using assms(3,4) by (auto simp add: list_all_iff broadcast_row_same)
  ultimately show ?thesis
    by (simp add: np_einsum_iB_jB_ij_def)
qed

lemma sensitivity_dense_columns:
  assumes "self_solver self = Some sv"
    and "solver_adjoint ops sv dfdv = Inr (Array2 t ls, sv')"
    and "self_issparse self = Some False" and "self_iscomplex self = Some cx"
    and "self_u self = Some (Array2 t' us)"
    and "ls \<noteq> []" and "us \<noteq> []"
    and "list_all (\<lambda>r. length r = m) ls" and "list_all (\<lambda>r. length r = m) us"
  shows "LinSolve_sensitivity ops self (mat, rhs) dfdv =
     Inr ((DenseMatrix
             (if cx then Array2 (result_type t t')
                  (map (\<lambda>l. map (\<lambda>u. dot_rows (map uminus l) (map cnj u)) us) ls)
              else Array2 RealValued
                  (map (\<lambda>l. map (\<lambda>u. complex_of_real (Re (dot_rows (map uminus l) (map cnj u)))) us) ls)),
           if np_isrealobj rhs then np_real (Array2 t ls) else Array2 t ls),
          self\<lparr>self_solver := Some sv'\<rparr>)"
proof -
  have "np_einsum_iB_jB_ij (np_negative (Array2 t ls)) (np_conj (Array2 t' us)) =
      Inr (Array2 (result_type t t')
             (map (\<lambda>l. map (\<lambda>u. dot_rows (map uminus l) (map cnj u)) us) ls))"
    using assms(6-9)
    by (simp add: np_negative_def np_conj_def einsum_equal_columns [where m = m]
        list_all_iff o_def)
  then show ?thesis
    using assms(1-5) by (simp add: LinSolve_sensitivity_def np_real_def o_def)
qed

lemma row_real_imag:
  "map2 (\<lambda>x y. x + y)
     (map (\<lambda>z. - (complex_of_real (Re l) * complex_of_real (Re z))) us)
     (map (\<lambda>z. - (complex_of_real (Im l) * complex_of_real (Im z))) us)
   = map (\<lambda>z. complex_of_real (Re (- (l * cnj z)))) us"
  by (induction us) (simp_all add: complex_eq_iff)

lemma rows_real_imag:
  "map2 (map2 (\<lambda>x y. x + y))
     (map (\<lambda>l. map (\<lambda>z. - (complex_of_real (Re l) * complex_of_real (Re z))) us) ls)
     (map (\<lambda>l. map (\<lambda>z. - (complex_of_real (Im l) * complex_of_real (Im z))) us) ls)
   = map (\<lambda>l. map (\<lambda>z. complex_of_real (Re (- (l * cnj z)))) us) ls"
  by (induction ls) (simp_all add: row_real_imag)

lemma dyads_todense_real_imag:
  "dyads_todense (DyadCarrier
       [np_negative (np_real (Array1 t ls)), np_negative (np_imag (Array1 t ls))]
       [np_real (Array1 t' us), np_imag (Array1 t' us)]) =
     Some (map (map (\<lambda>z. complex_of_real (Re z))) (outer_rows (map uminus ls) (map cnj us)))"
  by (simp add: np_negative_def np_real_def np_imag_def outer_rows_def o_def rows_real_imag)

lemma sensitivity_sparse_real_matrix_complex_vectors:
  assumes "self_solver self = Some sv" and "solver_adjoint ops sv dfdv = Inr (lam, sv')"
    and "self_issparse self = Some True" and "self_iscomplex self = Some False"
    and "self_u self = Some u" and "np_iscomplexobj u \<or> np_iscomplexobj lam"
  shows "LinSolve_sensitivity ops self (mat, rhs) dfdv =
     Inr ((Dyads (DyadCarrier [np_negative (np_real lam), np_negative (np_imag lam)]
                    [np_real u, np_imag u]),
           if np_isrealobj rhs then np_real lam else lam), self\<lparr>self_solver := Some sv'\<rparr>)"
  using assms by (simp add: LinSolve_sensitivity_def)

lemma divide_complex_1:
  "diag_divide sparse_complex_1 (Array1 ComplexValued [\<i>]) = Inr (Array1 ComplexValued [\<i>])"
  "diag_divide sparse_complex_1 (Array1 RealValued [1]) = Inr (Array1 ComplexValued [1])"
  by (simp_all add: diag_divide_def diagonal_sparse_complex_1 result_type_def sparse_complex_1_fields)

text \<open>
  C2 at a failing input: the sparse complex-valued matrix \<open>[[1 + 0j]]\<close> with right-hand
  side \<open>[1j]\<close> and output gradient \<open>[1]\<close>. The solution is \<open>u = [1j]\<close> and the adjoint
  \<open>\<lambda> = [1]\<close>. The node returns the carrier of \<open>[-1]\<close> and \<open>[1j]\<close>, which stands for
  \<open>[[-1j]]\<close>, where \<open>-\<lambda> \<otimes> conj(u)\<close> is \<open>[[1j]]\<close>.
\<close>

theorem sparse_complex_sensitivity_not_conjugated:
  "LinSolve_response (spec_pymodular p s c) (spec_ops k ka)
       (LinSolve_prepare d None None None) sparse_complex_1 (Array1 ComplexValued [\<i>])
     = Inr (Array1 ComplexValued [\<i>],
            solved_node d (Some True) None sparse_complex_1 (Array1 ComplexValued [\<i>]))
   \<and> LinSolve_sensitivity (spec_ops k ka)
       (solved_node d (Some True) None sparse_complex_1 (Array1 ComplexValued [\<i>]))
       (sparse_complex_1, Array1 ComplexValued [\<i>]) (Array1 RealValued [1])
     = Inr ((Dyads (DyadCarrier [Array1 ComplexValued [- 1]] [Array1 ComplexValued [\<i>]]),
             Array1 ComplexValued [1]),
            solved_node d (Some True) None sparse_complex_1 (Array1 ComplexValued [\<i>]))
   \<and> dyads_todense (DyadCarrier [Array1 ComplexValued [- 1]] [Array1 ComplexValued [\<i>]])
     = Some [[- \<i>]]
   \<and> outer_rows (map uminus [1]) (map cnj [\<i>]) = [[\<i>]]"
proof (intro conjI)
  let ?pm = "spec_pymodular p s c"
  have nz: "\<not> list_ex (\<lambda>d. d = 0) (diagonal sparse_complex_1)"
    by (simp add: diagonal_sparse_complex_1)
  show "LinSolve_response ?pm (spec_ops k ka)
       (LinSolve_prepare d None None None) sparse_complex_1 (Array1 ComplexValued [\<i>])
     = Inr (Array1 ComplexValued [\<i>],
            solved_node d (Some True) None sparse_complex_1 (Array1 ComplexValued [\<i>]))"
    using spec_response_diagonal [OF _ sparse_complex_1_checks(1) nz divide_complex_1(1),
        of p s c k ka d None None]
    by (simp add: sparse_complex_1_checks sparse_complex_1_fields)
  have a: "solver_adjoint (spec_ops k ka)
       (Wrapped (LinearSolver SolverDiagonal (Some sparse_complex_1))) (Array1 RealValued [1])
     = Inr (Array1 ComplexValued [1], Wrapped (LinearSolver SolverDiagonal (Some sparse_complex_1)))"
    by (rule spec_adjoint_diagonal [OF divide_complex_1(2)])
  show "LinSolve_sensitivity (spec_ops k ka)
       (solved_node d (Some True) None sparse_complex_1 (Array1 ComplexValued [\<i>]))
       (sparse_complex_1, Array1 ComplexValued [\<i>]) (Array1 RealValued [1])
     = Inr ((Dyads (DyadCarrier [Array1 ComplexValued [- 1]] [Array1 ComplexValued [\<i>]]),
             Array1 ComplexValued [1]),
            solved_node d (Some True) None sparse_complex_1 (Array1 ComplexValued [\<i>]))"
    by (simp add: LinSolve_sensitivity_def solved_node_def a sparse_complex_1_fields
        np_negative_def np_isrealobj_def np_iscomplexobj_def)
  show "dyads_todense (DyadCarrier [Array1 ComplexValued [- 1]] [Array1 ComplexValued [\<i>]])
     = Some [[- \<i>]]"
    by (simp add: outer_rows_def)
  show "outer_rows (map uminus [1]) (map cnj [\<i>]) = [[\<i>]]"
    by (simp add: outer_rows_def)
qed

text \<open>
  The forward pass reads the node only through the detections, so an update of a field
  that the rest of the pass does not read commutes with it.
\<close>

lemma response_update_cong:
  assumes "LinSolve_detect pm self1 mat = f (LinSolve_detect pm self2 mat)"
    and "\<And>x. self_solver (f x) = self_solver x"
    and "\<And>x. self_ishermitian (f x) = self_ishermitian x"
    and "\<And>x a b. (f x)\<lparr>self_solver := a, self_u := b\<rparr> = f (x\<lparr>self_solver := a, self_u := b\<rparr>)"
  shows "LinSolve_response pm ops self1 mat rhs =
     map_sum id (apsnd f) (LinSolve_response pm ops self2 mat rhs)"
  unfolding LinSolve_response_def Let_def assms
  by (simp split: sum.split prod.split)

lemma detect_dep_tol_update:
  "LinSolve_detect pm (self\<lparr>self_dep_tol := d\<rparr>) mat =
     (LinSolve_detect pm self mat)\<lparr>self_dep_tol := d\<rparr>"
  by (auto simp add: LinSolve_detect_def Let_def)

lemma detect_issymmetric_update:
  assumes "iscomplexobj_matrix mat"
  shows "LinSolve_detect pm (self\<lparr>self_issymmetric := s\<rparr>) mat =
     (LinSolve_detect pm self mat)\<lparr>self_issymmetric := s\<rparr>"
  using assms by (auto simp add: LinSolve_detect_def Let_def)

lemma detect_ishermitian:
  "self_ishermitian (LinSolve_detect pm self mat) =
     (if \<not> iscomplexobj_matrix mat \<and> self_issymmetric self \<noteq> None then self_issymmetric self
      else if self_ishermitian self = None then Some (matrix_is_hermitian pm mat)
      else self_ishermitian self)"
  by (auto simp add: LinSolve_detect_def Let_def)

lemma response_dep_tol_update:
  "LinSolve_response pm ops (self\<lparr>self_dep_tol := d\<rparr>) mat rhs =
     map_sum id (apsnd (\<lambda>self. self\<lparr>self_dep_tol := d\<rparr>)) (LinSolve_response pm ops self mat rhs)"
  by (rule response_update_cong [where f = "\<lambda>self. self\<lparr>self_dep_tol := d\<rparr>"])
    (simp_all add: detect_dep_tol_update)

lemma sensitivity_independent_of_dep_tol:
  "LinSolve_sensitivity ops (self\<lparr>self_dep_tol := d\<rparr>) sig_in dfdv =
     map_sum id (apsnd (\<lambda>self. self\<lparr>self_dep_tol := d\<rparr>)) (LinSolve_sensitivity ops self sig_in dfdv)"
  unfolding LinSolve_sensitivity_def Let_def
  by (simp split: sum.split option.split prod.split)

lemma classifier_raises_nothing_on_one_override:
  "auto_determine_solver pm A None None None h None None \<noteq> Inl e"
  by (auto simp: auto_determine_solver_def classify_symmetry_def Let_def split: option.splits)

lemma map_sum_Inl_iff: "map_sum id f x = Inl e \<longleftrightarrow> x = Inl e"
  by (cases x) simp_all

lemma response_raises_no_AssertionError:
  "LinSolve_response pm ops self mat rhs \<noteq> Inl AssertionError"
  unfolding LinSolve_response_def Let_def
  by (simp add: classifier_raises_nothing_on_one_override map_sum_Inl_iff
      split: sum.split option.split prod.split)

lemma response_keeps_detected_flags:
  assumes "LinSolve_response pm ops self mat rhs = Inr (u, self')"
  shows "self_ishermitian self' = self_ishermitian (LinSolve_detect pm self mat)"
  using assms unfolding LinSolve_response_def Let_def
  by (clarsimp split: sum.splits option.splits prod.splits)

text \<open>
  C8. The value \<open>dep_tol\<close> is stored on the node and read nowhere: nodes constructed
  with two values differ in the stored field only, and a forward or a backward pass of
  a node with another stored value returns the same results, up to that field. In
  particular the wrapper, built as \<^verbatim>\<open>LDAWrapper(self.solver)\<close>, is the same object for
  every \<open>dep_tol\<close>, so it cannot use the supplied value as its tolerance.
\<close>

theorem dep_tol_never_reaches_the_wrapper:
  "LinSolve_prepare d1 h s sv = (LinSolve_prepare d2 h s sv)\<lparr>self_dep_tol := d1\<rparr>
   \<and> LinSolve_response pm ops (self\<lparr>self_dep_tol := d1\<rparr>) mat rhs =
     map_sum id (apsnd (\<lambda>self. self\<lparr>self_dep_tol := d1\<rparr>))
       (LinSolve_response pm ops self mat rhs)
   \<and> LinSolve_sensitivity ops (self\<lparr>self_dep_tol := d1\<rparr>) sig_in dfdv =
     map_sum id (apsnd (\<lambda>self. self\<lparr>self_dep_tol := d1\<rparr>))
       (LinSolve_sensitivity ops self sig_in dfdv)"
  by (simp add: LinSolve_prepare_def response_dep_tol_update sensitivity_independent_of_dep_tol)

text \<open>
  C10. In a forward pass on a real-valued matrix, a symmetric flag \<open>s\<close> given at
  construction becomes the Hermitian flag, whatever the Hermitian flag was; no
  \<^verbatim>\<open>AssertionError\<close> is raised, since the classifier is called with the Hermitian flag
  alone. On a complex-valued matrix the Hermitian flag is the one given, or the result
  of the check when none was given, and the forward pass is the one of the node
  without the symmetric flag.
\<close>

theorem symmetric_flag_overwrites_hermitian_flag:
  "(\<not> iscomplexobj_matrix mat \<and> self_issymmetric self = Some s \<longrightarrow>
      self_ishermitian (LinSolve_detect pm self mat) = Some s
      \<and> LinSolve_response pm ops self mat rhs \<noteq> Inl AssertionError
      \<and> (\<forall>u self'. LinSolve_response pm ops self mat rhs = Inr (u, self')
            \<longrightarrow> self_ishermitian self' = Some s))
   \<and> (iscomplexobj_matrix mat \<longrightarrow>
      self_ishermitian (LinSolve_detect pm self mat) =
        (if self_ishermitian self = None then Some (matrix_is_hermitian pm mat)
         else self_ishermitian self)
      \<and> LinSolve_response pm ops (self\<lparr>self_issymmetric := symmetric\<rparr>) mat rhs =
        map_sum id (apsnd (\<lambda>self. self\<lparr>self_issymmetric := symmetric\<rparr>))
          (LinSolve_response pm ops self mat rhs))"
proof (intro conjI impI allI)
  assume r: "\<not> iscomplexobj_matrix mat \<and> self_issymmetric self = Some s"
  then show d: "self_ishermitian (LinSolve_detect pm self mat) = Some s"
    by (simp add: detect_ishermitian)
  show "LinSolve_response pm ops self mat rhs \<noteq> Inl AssertionError"
    by (rule response_raises_no_AssertionError)
  fix u self'
  assume "LinSolve_response pm ops self mat rhs = Inr (u, self')"
  then show "self_ishermitian self' = Some s"
    using d by (simp add: response_keeps_detected_flags)
next
  assume c: "iscomplexobj_matrix mat"
  then show "self_ishermitian (LinSolve_detect pm self mat) =
        (if self_ishermitian self = None then Some (matrix_is_hermitian pm mat)
         else self_ishermitian self)"
    by (simp add: detect_ishermitian)
  show "LinSolve_response pm ops (self\<lparr>self_issymmetric := symmetric\<rparr>) mat rhs =
        map_sum id (apsnd (\<lambda>self. self\<lparr>self_issymmetric := symmetric\<rparr>))
          (LinSolve_response pm ops self mat rhs)"
    by (rule response_update_cong [where f = "\<lambda>self. self\<lparr>self_issymmetric := symmetric\<rparr>"])
      (simp_all add: detect_issymmetric_update [OF c])
qed

theorem symmetric_flag_overwrites_hermitian_flag_witness:
  "\<not> iscomplexobj_matrix dense_diag_2_4
   \<and> self_issymmetric (LinSolve_prepare dep_tol_default (Some False) (Some True)
        (None :: spec_solver option)) = Some True
   \<and> self_ishermitian (LinSolve_detect (spec_pymodular False False False)
        (LinSolve_prepare dep_tol_default (Some False) (Some True) (None :: spec_solver option))
        dense_diag_2_4) = Some True
   \<and> LinSolve_response (spec_pymodular False False False) (spec_ops no_kernel no_kernel)
        (LinSolve_prepare dep_tol_default (Some False) (Some True) None)
        dense_diag_2_4 (Array1 RealValued [4, 8])
      = Inr (Array1 RealValued [2, 2],
             solved_node dep_tol_default (Some True) (Some True) dense_diag_2_4
               (Array1 RealValued [2, 2]))
   \<and> self_ishermitian (solved_node dep_tol_default (Some True) (Some True) dense_diag_2_4
        (Array1 RealValued [2, 2])) = Some True
   \<and> iscomplexobj_matrix sparse_complex_1
   \<and> self_ishermitian (LinSolve_detect (spec_pymodular False False False)
        (LinSolve_prepare dep_tol_default (Some False) (Some True) (None :: spec_solver option))
        sparse_complex_1) = Some False"
proof -
  let ?pm = "spec_pymodular False False False"
  let ?ops = "spec_ops no_kernel no_kernel"
  let ?rhs = "Array1 RealValued [4, 8]"
  let ?self = "LinSolve_prepare dep_tol_default (Some False) (Some True) (None :: spec_solver option)"
  let ?node = "solved_node dep_tol_default (Some True) (Some True) dense_diag_2_4
      (Array1 RealValued [2, 2])"
  have r: "\<not> iscomplexobj_matrix dense_diag_2_4"
    by (simp add: iscomplexobj_matrix_def dense_diag_2_4_fields)
  have s: "self_issymmetric ?self = Some True" and t: "self_ishermitian ?self = Some False"
    by (simp_all add: LinSolve_prepare_def)
  have c: "iscomplexobj_matrix sparse_complex_1"
    by (simp add: iscomplexobj_matrix_def sparse_complex_1_fields)
  have nz: "\<not> list_ex (\<lambda>d. d = 0) (diagonal dense_diag_2_4)"
    by (simp add: diagonal_diag_2_4)
  have run: "LinSolve_response ?pm ?ops ?self dense_diag_2_4 ?rhs = Inr (Array1 RealValued [2, 2], ?node)"
    using spec_response_diagonal [OF _ dense_diag_2_4_is_diagonal nz divide_4_8(1),
        of False False False no_kernel no_kernel dep_tol_default "Some False" "Some True"]
    by (simp add: r dense_diag_2_4_fields)
  note main = symmetric_flag_overwrites_hermitian_flag
  from main [of dense_diag_2_4 ?self True ?pm ?ops ?rhs] r s
  have f: "self_ishermitian (LinSolve_detect ?pm ?self dense_diag_2_4) = Some True"
    and g: "\<forall>u self. LinSolve_response ?pm ?ops ?self dense_diag_2_4 ?rhs = Inr (u, self)
              \<longrightarrow> self_ishermitian self = Some True"
    by blast+
  from g run have h: "self_ishermitian ?node = Some True"
    by blast
  from main [of sparse_complex_1 ?self True ?pm ?ops ?rhs] c t
  have k: "self_ishermitian (LinSolve_detect ?pm ?self sparse_complex_1) = Some False"
    by simp
  from r s f run h c k show ?thesis by simp
qed

end
